theory Spec2Isabelle
  imports Complex_Main "HOL-Library.Char_ord" "HOL-Library.List_Lexorder" "HOL-Library.Word"
begin

section \<open>Numbers of a data frame\<close>

text \<open>
  The numeric columns have the types the sample data of the source gives them. The money
  columns (spend, attributed revenue, total revenue, gross profit) are \<open>float64\<close>
  columns: a cell is a finite number, \<open>inf\<close>, \<open>-inf\<close> or \<open>NaN\<close> (what an empty field of
  the file is read as). The counting columns (impressions, clicks, orders, new customers)
  are \<open>int64\<close> columns: a cell is a 64-bit integer, read signed, and sums wrap around.
  Finite floating-point numbers are modelled exactly: rounding and the sign of zero are
  not modelled, and a conversion from \<open>int64\<close> is exact.
\<close>

datatype fval = Fin real | PosInf | NegInf | NaN

type_synonym int64 = "64 word"

text \<open>
  The division of two \<open>float64\<close> values. On columns of these types it never raises:
  where the denominator is zero the result is \<open>inf\<close>, \<open>-inf\<close> or \<open>NaN\<close>.
\<close>

fun fdiv :: "fval \<Rightarrow> fval \<Rightarrow> fval" where
  "fdiv NaN y = NaN"
| "fdiv x NaN = NaN"
| "fdiv (Fin a) (Fin b) =
     (if b \<noteq> 0 then Fin (a / b)
      else if 0 < a then PosInf
      else if a < 0 then NegInf
      else NaN)"
| "fdiv (Fin a) y = Fin 0"
| "fdiv PosInf (Fin b) = (if b < 0 then NegInf else PosInf)"
| "fdiv NegInf (Fin b) = (if b < 0 then PosInf else NegInf)"
| "fdiv x y = NaN"

text \<open>A column of division results times a finite scalar (\<open>(... / ...) * 100\<close>).\<close>

fun fmul :: "fval \<Rightarrow> real \<Rightarrow> fval" where
  "fmul (Fin a) c = Fin (a * c)"
| "fmul PosInf c = (if 0 < c then PosInf else if c < 0 then NegInf else NaN)"
| "fmul NegInf c = (if 0 < c then NegInf else if c < 0 then PosInf else NaN)"
| "fmul NaN c = NaN"

fun fadd :: "fval \<Rightarrow> fval \<Rightarrow> fval" where
  "fadd NaN y = NaN"
| "fadd x NaN = NaN"
| "fadd (Fin a) (Fin b) = Fin (a + b)"
| "fadd PosInf NegInf = NaN"
| "fadd NegInf PosInf = NaN"
| "fadd PosInf y = PosInf"
| "fadd x PosInf = PosInf"
| "fadd NegInf y = NegInf"
| "fadd x NegInf = NegInf"

text \<open>
  \<open>.sum()\<close> of a \<open>float64\<close> column, of a frame or of a group: the \<open>NaN\<close> cells are
  skipped (\<open>skipna\<close>), and the sum of no cell is 0.
\<close>

definition fsum :: "fval list \<Rightarrow> fval" where
  "fsum xs = foldl fadd (Fin 0) (filter (\<lambda>x. x \<noteq> NaN) xs)"

fun is_finite :: "fval \<Rightarrow> bool" where
  "is_finite (Fin a) = True"
| "is_finite PosInf = False"
| "is_finite NegInf = False"
| "is_finite NaN = False"

text \<open>The number a finite cell holds (0 for the other cells, where it is not used).\<close>

fun real_of_fval :: "fval \<Rightarrow> real" where
  "real_of_fval (Fin a) = a"
| "real_of_fval PosInf = 0"
| "real_of_fval NegInf = 0"
| "real_of_fval NaN = 0"

text \<open>\<open>x > 0\<close> on a \<open>float64\<close> value: false for \<open>NaN\<close>.\<close>

fun fpositive :: "fval \<Rightarrow> bool" where
  "fpositive (Fin a) = (0 < a)"
| "fpositive PosInf = True"
| "fpositive NegInf = False"
| "fpositive NaN = False"

text \<open>An \<open>int64\<close> value as an operand of a division: the same number as a \<open>float64\<close>.\<close>

definition to_float :: "int64 \<Rightarrow> fval" where
  "to_float w = Fin (of_int (sint w))"

text \<open>\<open>Series.replace(old, new)\<close>, on one cell.\<close>

definition replace :: "'a \<Rightarrow> 'a \<Rightarrow> 'a \<Rightarrow> 'a" where
  "replace old new x = (if x = old then new else x)"

section \<open>Dates\<close>

text \<open>
  A date is a calendar day, counted in days since 1970-01-01 (the date columns of the
  input files and of the sample data hold days; a time of day is not modelled).
  \<open>days_from_civil y m d\<close> is the day number of the date \<open>y-m-d\<close> of the Gregorian
  calendar, so that dates can be written as the source writes them.
\<close>

definition days_from_civil :: "int \<Rightarrow> int \<Rightarrow> int \<Rightarrow> int" where
  "days_from_civil y m d =
     (let y' = (if m \<le> 2 then y - 1 else y);
          era = y' div 400;
          yoe = y' - era * 400;
          doy = (153 * (if 2 < m then m - 3 else m + 9) + 2) div 5 + d - 1;
          doe = yoe * 365 + yoe div 4 - yoe div 100 + doy
      in era * 146097 + doe - 719468)"

text \<open>\<open>pd.date_range(start=..., periods=n, freq='D')\<close>: \<open>n\<close> consecutive days.\<close>

definition date_range_days :: "int \<Rightarrow> nat \<Rightarrow> int list" where
  "date_range_days start periods = map (\<lambda>i. start + int i) [0..<periods]"

text \<open>
  A cell of a date column before \<open>pd.to_datetime\<close>: the text read from a file, or the
  timestamp the sample generator puts there.
\<close>

datatype date_cell = DateText string | Timestamp int

section \<open>Tables\<close>

text \<open>
  A data frame is the list of its rows, in row order. The columns keep the names of the
  source, with \<open>_\<close> for a blank: \<open>attributed revenue\<close>, \<open>new customers\<close>, \<open>total revenue\<close>,
  \<open>gross profit\<close>; \<open># of orders\<close> is \<open>num_orders\<close>, the column \<open>tactic\<close> is \<open>tactic_name\<close>,
  and the \<open>date\<close> column of the business table is \<open>bdate\<close>. The type parameter is the type
  of the date column: \<open>date_cell\<close> before \<open>pd.to_datetime\<close>, \<open>int\<close> after.
\<close>

record 'd marketing_row =
  date :: 'd
  platform :: string
  tactic_name :: string
  state :: string
  impression :: int64
  clicks :: int64
  spend :: fval
  attributed_revenue :: fval

record metric_row = "int marketing_row" +
  roas :: fval
  ctr :: fval
  cpc :: fval

record 'd business_row =
  bdate :: 'd
  num_orders :: int64
  new_customers :: int64
  total_revenue :: fval
  gross_profit :: fval

section \<open>load_data\<close>

datatype py_error = FileNotFoundError | ParserError | DateParseError

text \<open>
  What \<open>load_data\<close> reads from outside: \<open>pd.read_csv\<close> on a marketing file and on the
  business file (the table with its columns of the types above, or the exception raised), the parser of \<open>pd.to_datetime\<close> on
  the text of a date cell (\<open>None\<close>: it raises), and the random generator of numpy. The
  generator is read by the number of the call: \<open>randint n lo hi\<close> is what the \<open>n\<close>-th call
  of the run returns when it is \<open>np.random.randint(lo, hi)\<close>, and so on.
\<close>

record env =
  read_marketing_csv :: "string \<Rightarrow> py_error + date_cell marketing_row list"
  read_business_csv :: "string \<Rightarrow> py_error + date_cell business_row list"
  parse_date :: "string \<Rightarrow> int option"
  randint :: "nat \<Rightarrow> int \<Rightarrow> int \<Rightarrow> int"
  uniform :: "nat \<Rightarrow> real \<Rightarrow> real \<Rightarrow> real"
  choice :: "nat \<Rightarrow> string list \<Rightarrow> string"

text \<open>
  The loop of the \<open>try\<close> block: each file is read and its rows tagged with the platform
  (\<open>df['platform'] = platform\<close> sets the column, whatever the file held there); the first
  exception ends the loop.
\<close>

fun read_platforms :: "env \<Rightarrow> (string \<times> string) list \<Rightarrow> py_error + date_cell marketing_row list list" where
  "read_platforms e [] = Inr []"
| "read_platforms e ((p, file) # rest) =
     (case read_marketing_csv e file of
        Inl err \<Rightarrow> Inl err
      | Inr df \<Rightarrow>
          (case read_platforms e rest of
             Inl err \<Rightarrow> Inl err
           | Inr dfs \<Rightarrow> Inr (map (\<lambda>r. r\<lparr>platform := p\<rparr>) df # dfs)))"

definition platform_files :: "(string \<times> string) list" where
  "platform_files =
     [(''Facebook'', ''Facebook.csv''), (''Google'', ''Google.csv''), (''TikTok'', ''TikTok.csv'')]"

definition load_files :: "env \<Rightarrow> py_error + (date_cell marketing_row list \<times> date_cell business_row list)" where
  "load_files e =
     (case read_platforms e platform_files of
        Inl err \<Rightarrow> Inl err
      | Inr dfs \<Rightarrow>
          (case read_business_csv e ''Business.csv'' of
             Inl err \<Rightarrow> Inl err
           | Inr business_df \<Rightarrow> Inr (concat dfs, business_df)))"

subsection \<open>Sample data\<close>

text \<open>
  One marketing row of the sample data; \<open>n\<close> is the number of random calls made so far.
  The six calls are made in the order of the source: impressions, clicks, spend, then
  tactic, state and the revenue multiplier inside the dictionary.
\<close>

definition sample_marketing_row :: "env \<Rightarrow> nat \<Rightarrow> int \<Rightarrow> string \<Rightarrow> date_cell marketing_row" where
  "sample_marketing_row e n d p =
     (let impressions = randint e n 50000 200000;
          clicks' = randint e (n + 1) 1000 5000;
          spend' = uniform e (n + 2) 500 3000
      in \<lparr>date = Timestamp d, platform = p,
          tactic_name = choice e (n + 3) [''ASC'', ''Retargeting'', ''Search''],
          state = choice e (n + 4) [''NY'', ''CA'', ''TX'', ''FL''],
          impression = of_int impressions, clicks = of_int clicks', spend = Fin spend',
          attributed_revenue = Fin (spend' * uniform e (n + 5) 1.5 4.0)\<rparr>)"

fun sample_platform_loop :: "env \<Rightarrow> int \<Rightarrow> string list \<Rightarrow> nat \<Rightarrow> date_cell marketing_row list \<times> nat" where
  "sample_platform_loop e d [] n = ([], n)"
| "sample_platform_loop e d (p # ps) n =
     (let r = sample_marketing_row e n d p;
          (rs, n') = sample_platform_loop e d ps (n + 6)
      in (r # rs, n'))"

fun sample_marketing_loop :: "env \<Rightarrow> int list \<Rightarrow> nat \<Rightarrow> date_cell marketing_row list \<times> nat" where
  "sample_marketing_loop e [] n = ([], n)"
| "sample_marketing_loop e (d # ds) n =
     (let (rs, n') = sample_platform_loop e d [''Facebook'', ''Google'', ''TikTok''] n;
          (rest, n'') = sample_marketing_loop e ds n'
      in (rs @ rest, n''))"

definition sample_business_row :: "env \<Rightarrow> nat \<Rightarrow> int \<Rightarrow> date_cell business_row" where
  "sample_business_row e n d =
     (let revenue = uniform e n 20000 40000
      in \<lparr>bdate = Timestamp d,
          num_orders = of_int (randint e (n + 1) 200 400),
          new_customers = of_int (randint e (n + 2) 40 120),
          total_revenue = Fin revenue,
          gross_profit = Fin (revenue * uniform e (n + 3) 0.4 0.6)\<rparr>)"

fun sample_business_loop :: "env \<Rightarrow> int list \<Rightarrow> nat \<Rightarrow> date_cell business_row list" where
  "sample_business_loop e [] n = []"
| "sample_business_loop e (d # ds) n = sample_business_row e n d # sample_business_loop e ds (n + 4)"

definition sample_dates :: "int list" where
  "sample_dates = date_range_days (days_from_civil 2025 5 16) 120"

definition sample_data :: "env \<Rightarrow> date_cell marketing_row list \<times> date_cell business_row list" where
  "sample_data e =
     (let (marketing_data, n) = sample_marketing_loop e sample_dates 0
      in (marketing_data, sample_business_loop e sample_dates n))"

subsection \<open>Dates and metrics\<close>

fun to_datetime :: "env \<Rightarrow> date_cell \<Rightarrow> py_error + int" where
  "to_datetime e (Timestamp t) = Inr t"
| "to_datetime e (DateText s) = (case parse_date e s of None \<Rightarrow> Inl DateParseError | Some t \<Rightarrow> Inr t)"

text \<open>\<open>df['date'] = pd.to_datetime(df['date'])\<close>: the whole column, or the exception.\<close>

fun to_datetime_marketing :: "env \<Rightarrow> date_cell marketing_row list \<Rightarrow> py_error + int marketing_row list" where
  "to_datetime_marketing e [] = Inr []"
| "to_datetime_marketing e (r # rs) =
     (case to_datetime e (date r) of
        Inl err \<Rightarrow> Inl err
      | Inr t \<Rightarrow>
          (case to_datetime_marketing e rs of
             Inl err \<Rightarrow> Inl err
           | Inr rs' \<Rightarrow>
               Inr (\<lparr>date = t, platform = platform r, tactic_name = tactic_name r, state = state r,
                     impression = impression r, clicks = clicks r, spend = spend r,
                     attributed_revenue = attributed_revenue r\<rparr> # rs')))"

fun to_datetime_business :: "env \<Rightarrow> date_cell business_row list \<Rightarrow> py_error + int business_row list" where
  "to_datetime_business e [] = Inr []"
| "to_datetime_business e (r # rs) =
     (case to_datetime e (bdate r) of
        Inl err \<Rightarrow> Inl err
      | Inr t \<Rightarrow>
          (case to_datetime_business e rs of
             Inl err \<Rightarrow> Inl err
           | Inr rs' \<Rightarrow>
               Inr (\<lparr>bdate = t, num_orders = num_orders r, new_customers = new_customers r,
                     total_revenue = total_revenue r, gross_profit = gross_profit r\<rparr> # rs')))"

text \<open>
  The three lines under \<open># Safe calculations\<close>, on one row: the denominator column goes
  through \<open>replace(0, 1)\<close>, then the columns are divided.
\<close>

definition safe_calculations :: "int marketing_row \<Rightarrow> metric_row" where
  "safe_calculations r =
     \<lparr>date = date r, platform = platform r, tactic_name = tactic_name r, state = state r,
      impression = impression r, clicks = clicks r, spend = spend r,
      attributed_revenue = attributed_revenue r,
      roas = fdiv (attributed_revenue r) (replace (Fin 0) (Fin 1) (spend r)),
      ctr = fmul (fdiv (to_float (clicks r)) (to_float (replace 0 1 (impression r)))) 100,
      cpc = fdiv (spend r) (to_float (replace 0 1 (clicks r)))\<rparr>"

text \<open>
  What \<open>load_data\<close> hands back: the two tables, and the warnings it showed on the way
  (\<open>st.warning\<close>).
\<close>

datatype warning = SampleDataWarning py_error

record dataset =
  warnings :: "warning list"
  marketing_df :: "metric_row list"
  business_df :: "int business_row list"

text \<open>
  The \<open>try\<close> statement of \<open>load_data\<close>: the tables read from the files, or, when a
  \<open>FileNotFoundError\<close> is raised, the warning and the sample data; every other exception
  leaves the function.
\<close>

definition load_tables ::
  "env \<Rightarrow> py_error + (warning list \<times> date_cell marketing_row list \<times> date_cell business_row list)" where
  "load_tables e =
     (case load_files e of
        Inr (m, b) \<Rightarrow> Inr ([], m, b)
      | Inl FileNotFoundError \<Rightarrow>
          (let (m, b) = sample_data e in Inr ([SampleDataWarning FileNotFoundError], m, b))
      | Inl err \<Rightarrow> Inl err)"

text \<open>
  \<open>load_data\<close>: the \<open>try\<close> statement, then the conversion of the dates and the metrics,
  which stand after it.
\<close>

definition load_data :: "env \<Rightarrow> py_error + dataset" where
  "load_data e =
     (case load_tables e of
        Inl err \<Rightarrow> Inl err
      | Inr (ws, m, b) \<Rightarrow>
          (case to_datetime_marketing e m of
             Inl err \<Rightarrow> Inl err
           | Inr m' \<Rightarrow>
               (case to_datetime_business e b of
                  Inl err \<Rightarrow> Inl err
                | Inr b' \<Rightarrow>
                    Inr \<lparr>warnings = ws, marketing_df = map safe_calculations m', business_df = b'\<rparr>)))"

section \<open>Filtering\<close>

text \<open>
  The filter step of \<open>main\<close>. \<open>date_range\<close> is what the date input hands back, a tuple
  of dates (of two dates when a range is chosen); \<open>platforms\<close> and \<open>states\<close> are the
  selections. \<open>pd.to_datetime\<close> on a date is the day itself.
\<close>

definition filter_data ::
  "int list \<Rightarrow> string list \<Rightarrow> string list \<Rightarrow> metric_row list \<Rightarrow> int business_row list
     \<Rightarrow> metric_row list \<times> int business_row list" where
  "filter_data date_range platforms states marketing business =
     (if length date_range = 2 then
        (let start_date = date_range ! 0; end_date = date_range ! 1
         in (filter (\<lambda>r. date r \<ge> start_date \<and> date r \<le> end_date \<and>
                          platform r \<in> set platforms \<and> state r \<in> set states) marketing,
             filter (\<lambda>r. bdate r \<ge> start_date \<and> bdate r \<le> end_date) business))
      else (marketing, business))"

section \<open>calculate_kpis\<close>

text \<open>
  The sums are those of pandas: \<open>fsum\<close> on the \<open>float64\<close> columns, the wrapping sum of
  64-bit integers on \<open>new customers\<close>. The two ratios are divisions guarded by the
  conditional expression; \<open>total_new_customers > 0\<close> compares the signed value.
\<close>

record kpis =
  total_spend :: fval
  total_attributed_revenue :: fval
  overall_roas :: fval
  blended_cac :: fval

definition calculate_kpis :: "metric_row list \<Rightarrow> int business_row list \<Rightarrow> kpis" where
  "calculate_kpis marketing business =
     (if marketing = [] then
        \<lparr>total_spend = Fin 0, total_attributed_revenue = Fin 0, overall_roas = Fin 0, blended_cac = Fin 0\<rparr>
      else
        (let total_spend' = fsum (map spend marketing);
             total_attributed_revenue' = fsum (map attributed_revenue marketing);
             total_new_customers = (if business \<noteq> [] then sum_list (map new_customers business) else 0)
         in \<lparr>total_spend = total_spend',
             total_attributed_revenue = total_attributed_revenue',
             overall_roas = (if fpositive total_spend' then fdiv total_attributed_revenue' total_spend' else Fin 0),
             blended_cac = (if 0 < sint total_new_customers then fdiv total_spend' (to_float total_new_customers)
                            else Fin 0)\<rparr>))"

section \<open>Grouped tables\<close>

text \<open>
  \<open>df.groupby('platform')\<close>: one group per value of the column, the rows of a group in
  row order. \<open>groupby\<close> is called with its defaults, so the groups come in ascending
  order of the key (\<open>sort=True\<close>); strings compare as in Python, character by character.
\<close>

definition groupby_platform :: "metric_row list \<Rightarrow> (string \<times> metric_row list) list" where
  "groupby_platform df =
     map (\<lambda>k. (k, filter (\<lambda>r. platform r = k) df)) (sort (remdups (map platform df)))"

record channel_stats =
  stats_platform :: string
  sum_spend :: fval
  sum_attributed_revenue :: fval
  sum_clicks :: int64
  sum_impression :: int64

record channel_summary = channel_stats +
  stats_roas :: fval
  stats_ctr :: fval

text \<open>
  \<open>.agg({... : 'sum'}).reset_index()\<close>: one row per group, the key and the four sums
  (\<open>fsum\<close> on the \<open>float64\<close> columns, the wrapping sum on the \<open>int64\<close> columns).
\<close>

definition agg_sum :: "(string \<times> metric_row list) list \<Rightarrow> channel_stats list" where
  "agg_sum groups =
     map (\<lambda>(k, rows).
            \<lparr>stats_platform = k,
             sum_spend = fsum (map spend rows),
             sum_attributed_revenue = fsum (map attributed_revenue rows),
             sum_clicks = sum_list (map clicks rows),
             sum_impression = sum_list (map impression rows)\<rparr>) groups"

text \<open>\<open>stats['roas'] = ...\<close> and \<open>stats['ctr'] = ...\<close>, on one row of \<open>stats\<close>.\<close>

definition add_ratios :: "channel_stats \<Rightarrow> channel_summary" where
  "add_ratios s =
     \<lparr>stats_platform = stats_platform s, sum_spend = sum_spend s,
      sum_attributed_revenue = sum_attributed_revenue s,
      sum_clicks = sum_clicks s, sum_impression = sum_impression s,
      stats_roas = fdiv (sum_attributed_revenue s) (sum_spend s),
      stats_ctr = fmul (fdiv (to_float (sum_clicks s)) (to_float (sum_impression s))) 100\<rparr>"

text \<open>
  \<open>create_channel_chart\<close>: the table \<open>stats\<close> it returns (the empty frame for an empty
  input). The figure, a bar chart drawn from \<open>stats\<close>, is not modelled.
\<close>

definition create_channel_chart :: "metric_row list \<Rightarrow> channel_summary list" where
  "create_channel_chart marketing =
     (if marketing = [] then [] else map add_ratios (agg_sum (groupby_platform marketing)))"

text \<open>
  \<open>create_spend_distribution_chart\<close>: the table \<open>spend_by_platform\<close> the pie chart is
  drawn from (\<open>None\<close> for an empty input, where no table is built).
\<close>

definition create_spend_distribution_chart :: "metric_row list \<Rightarrow> (string \<times> fval) list option" where
  "create_spend_distribution_chart marketing =
     (if marketing = [] then None
      else Some (map (\<lambda>(k, rows). (k, fsum (map spend rows))) (groupby_platform marketing)))"

text \<open>
  The order in which the values of a column first appear, as the specification words the
  order of the groups.
\<close>

fun discovery_order :: "'a list \<Rightarrow> 'a list" where
  "discovery_order [] = []"
| "discovery_order (x # xs) = x # filter (\<lambda>y. y \<noteq> x) (discovery_order xs)"

section \<open>Example inputs\<close>

text \<open>
  An environment with given files: dates are parsed when they are one of two days of June
  2025, and the random generator returns the lower bound (the first element of a choice).
\<close>

definition files_env ::
  "(string \<Rightarrow> py_error + date_cell marketing_row list) \<Rightarrow> (py_error + date_cell business_row list) \<Rightarrow> env" where
  "files_env marketing_files business_file =
     \<lparr>read_marketing_csv = marketing_files,
      read_business_csv = (\<lambda>f. business_file),
      parse_date = (\<lambda>s. if s = ''2025-06-01'' then Some (days_from_civil 2025 6 1)
                         else if s = ''2025-06-02'' then Some (days_from_civil 2025 6 2)
                         else None),
      randint = (\<lambda>n lo hi. lo),
      uniform = (\<lambda>n lo hi. lo),
      choice = (\<lambda>n xs. hd xs)\<rparr>"

text \<open>A row of a marketing file: date, state, impressions, clicks, spend, attributed revenue.\<close>

definition csv_row :: "string \<Rightarrow> string \<Rightarrow> int64 \<Rightarrow> int64 \<Rightarrow> fval \<Rightarrow> fval \<Rightarrow> date_cell marketing_row" where
  "csv_row d s i c sp ar =
     \<lparr>date = DateText d, platform = [], tactic_name = ''ASC'', state = s,
      impression = i, clicks = c, spend = sp, attributed_revenue = ar\<rparr>"

text \<open>A row of the marketing table as \<open>load_data\<close> builds it, metrics included.\<close>

definition loaded_row :: "int \<Rightarrow> string \<Rightarrow> string \<Rightarrow> int64 \<Rightarrow> int64 \<Rightarrow> fval \<Rightarrow> fval \<Rightarrow> metric_row" where
  "loaded_row d p s i c sp ar =
     safe_calculations
       \<lparr>date = d, platform = p, tactic_name = ''ASC'', state = s,
        impression = i, clicks = c, spend = sp, attributed_revenue = ar\<rparr>"

definition business_day :: "int \<Rightarrow> int64 \<Rightarrow> int business_row" where
  "business_day d n =
     \<lparr>bdate = d, num_orders = 10, new_customers = n, total_revenue = Fin 1000, gross_profit = Fin 500\<rparr>"

text \<open>
  Three rows of a marketing file: one with no spend and no impressions, one with no
  clicks and one with an empty spend field. In \<open>zero_env\<close> they are the rows of
  \<open>Facebook.csv\<close>, and the other files are empty tables.
\<close>

definition zero_rows :: "date_cell marketing_row list" where
  "zero_rows =
     [csv_row ''2025-06-01'' ''NY'' 0 7 (Fin 0) (Fin 5),
      csv_row ''2025-06-02'' ''NY'' 1000 0 (Fin 3) (Fin 9),
      csv_row ''2025-06-02'' ''NY'' 1000 10 NaN (Fin 9)]"

definition zero_env :: env where
  "zero_env = files_env (\<lambda>f. if f = ''Facebook.csv'' then Inr zero_rows else Inr []) (Inr [])"

text \<open>\<open>Facebook.csv\<close> is read, \<open>Google.csv\<close> is there and cannot be parsed.\<close>

definition unparsable_env :: env where
  "unparsable_env =
     files_env
       (\<lambda>f. if f = ''Facebook.csv'' then Inr [csv_row ''2025-06-01'' ''NY'' 1000 10 (Fin 100) (Fin 300)]
            else if f = ''Google.csv'' then Inl ParserError
            else Inr [])
       (Inr [])"

text \<open>\<open>Facebook.csv\<close> is read, \<open>Google.csv\<close> is missing.\<close>

definition missing_env :: env where
  "missing_env =
     files_env
       (\<lambda>f. if f = ''Facebook.csv'' then Inr [csv_row ''2025-06-01'' ''NY'' 1000 10 (Fin 100) (Fin 300)]
            else if f = ''Google.csv'' then Inl FileNotFoundError
            else Inr [])
       (Inr [])"

text \<open>Two days of June 2025, one marketing row and one business row on each.\<close>

definition two_day_marketing :: "metric_row list" where
  "two_day_marketing =
     [loaded_row (days_from_civil 2025 6 1) ''Google'' ''NY'' 1000 10 (Fin 100) (Fin 300),
      loaded_row (days_from_civil 2025 6 2) ''Google'' ''NY'' 1000 10 (Fin 100) (Fin 300)]"

definition two_day_business :: "int business_row list" where
  "two_day_business =
     [business_day (days_from_civil 2025 6 1) 5, business_day (days_from_civil 2025 6 2) 6]"

text \<open>Marketing spend of 500 in all, and two business days without a new customer.\<close>

definition kpi_marketing :: "metric_row list" where
  "kpi_marketing =
     [loaded_row (days_from_civil 2025 6 1) ''Google'' ''NY'' 1000 10 (Fin 200) (Fin 600),
      loaded_row (days_from_civil 2025 6 2) ''Google'' ''NY'' 1000 10 (Fin 300) (Fin 400)]"

definition kpi_business :: "int business_row list" where
  "kpi_business =
     [business_day (days_from_civil 2025 6 1) 0, business_day (days_from_civil 2025 6 2) 0]"

text \<open>The two rows of channel \<open>A\<close> of the scenario of the specification.\<close>

definition scenario_table :: "metric_row list" where
  "scenario_table =
     [loaded_row (days_from_civil 2025 6 1) ''A'' ''NY'' 1000 10 (Fin 100) (Fin 300),
      loaded_row (days_from_civil 2025 6 2) ''A'' ''NY'' 0 0 (Fin 0) (Fin 0)]"

text \<open>A table whose first row is of Google and whose second is of Facebook.\<close>

definition google_first_table :: "metric_row list" where
  "google_first_table =
     [loaded_row (days_from_civil 2025 6 1) ''Google'' ''NY'' 1000 10 (Fin 50) (Fin 150),
      loaded_row (days_from_civil 2025 6 1) ''Facebook'' ''NY'' 1000 10 (Fin 100) (Fin 300)]"

text \<open>A table in the order \<open>load_data\<close> builds: the rows of Facebook, then those of Google.\<close>

definition facebook_first_table :: "metric_row list" where
  "facebook_first_table =
     [loaded_row (days_from_civil 2025 6 1) ''Facebook'' ''NY'' 1000 10 (Fin 100) (Fin 300),
      loaded_row (days_from_civil 2025 6 2) ''Facebook'' ''NY'' 1000 10 (Fin 100) (Fin 300),
      loaded_row (days_from_civil 2025 6 1) ''Google'' ''NY'' 1000 10 (Fin 50) (Fin 150)]"

text \<open>A table where TikTok has rows and neither spend nor impressions.\<close>

definition paused_table :: "metric_row list" where
  "paused_table =
     [loaded_row (days_from_civil 2025 6 1) ''Facebook'' ''NY'' 1000 10 (Fin 100) (Fin 300),
      loaded_row (days_from_civil 2025 6 1) ''TikTok'' ''NY'' 0 0 (Fin 0) (Fin 0),
      loaded_row (days_from_civil 2025 6 2) ''TikTok'' ''NY'' 0 0 (Fin 0) (Fin 0)]"

text \<open>
  Counts at the edge of 64 bits: two business days with \<open>2^62\<close> new customers each, and
  two rows of one platform with \<open>2^62\<close> impressions each.
\<close>

definition huge_business :: "int business_row list" where
  "huge_business =
     [business_day (days_from_civil 2025 6 1) (2 ^ 62), business_day (days_from_civil 2025 6 2) (2 ^ 62)]"

definition huge_table :: "metric_row list" where
  "huge_table =
     [loaded_row (days_from_civil 2025 6 1) ''Google'' ''NY'' (2 ^ 62) 10 (Fin 200) (Fin 600),
      loaded_row (days_from_civil 2025 6 2) ''Google'' ''NY'' (2 ^ 62) 10 (Fin 300) (Fin 400)]"

section \<open>Facts about the numbers\<close>

lemma fdiv_one: "fdiv x (Fin 1) = x"
  by (cases x) simp_all

lemma fdiv_zero_not_finite: "\<not> is_finite (fdiv x (Fin 0))"
  by (cases x) simp_all

lemma fmul_not_finite: "\<not> is_finite y \<Longrightarrow> \<not> is_finite (fmul y 100)"
  by (cases y) simp_all

lemma foldl_fadd_finite:
  "list_all is_finite xs \<Longrightarrow> foldl fadd (Fin a) xs = Fin (a + sum_list (map real_of_fval xs))"
proof (induction xs arbitrary: a)
  case Nil
  show ?case by simp
next
  case (Cons x xs)
  then obtain b where "x = Fin b" by (cases x) simp_all
  with Cons show ?case by (simp add: add.assoc)
qed

lemma fsum_finite:
  assumes "list_all is_finite xs"
  shows "fsum xs = Fin (sum_list (map real_of_fval xs))"
proof -
  from assms have "filter (\<lambda>x. x \<noteq> NaN) xs = xs"
    by (induction xs) auto
  with foldl_fadd_finite [OF assms, of 0] show ?thesis by (simp add: fsum_def)
qed

lemma sum_list_word_of_int:
  "sum_list (ws :: int64 list) = word_of_int (sum_list (map sint ws))"
  by (induction ws) simp_all

lemma sint_sum_list:
  assumes "- (2 ^ 63) \<le> sum_list (map sint ws)" and "sum_list (map sint ws) < 2 ^ 63"
  shows "sint (sum_list (ws :: int64 list)) = sum_list (map sint ws)"
  using assms
  by (simp add: sum_list_word_of_int [of ws] sint_sbintrunc' signed_take_bit_int_eq_self)

section \<open>The metrics of a loaded row\<close>

lemma to_datetime_marketing_rows:
  assumes "\<forall>x \<in> set m. \<exists>t. to_datetime e (date x) = Inr t"
  shows "\<exists>m'. to_datetime_marketing e m = Inr m' \<and>
           list_all2 (\<lambda>x r. to_datetime e (date x) = Inr (date r) \<and> platform r = platform x \<and>
                           tactic_name r = tactic_name x \<and> state r = state x \<and>
                           impression r = impression x \<and> clicks r = clicks x \<and>
                           spend r = spend x \<and> attributed_revenue r = attributed_revenue x) m m'"
  using assms
proof (induction m)
  case Nil
  show ?case by simp
next
  case (Cons x m)
  then obtain t where t: "to_datetime e (date x) = Inr t" by auto
  from Cons obtain m' where "to_datetime_marketing e m = Inr m'"
    "list_all2 (\<lambda>x r. to_datetime e (date x) = Inr (date r) \<and> platform r = platform x \<and>
                           tactic_name r = tactic_name x \<and> state r = state x \<and>
                           impression r = impression x \<and> clicks r = clicks x \<and>
                           spend r = spend x \<and> attributed_revenue r = attributed_revenue x) m m'"
    by auto
  with t show ?case by simp
qed

lemma to_datetime_business_rows:
  assumes "\<forall>y \<in> set b. \<exists>t. to_datetime e (bdate y) = Inr t"
  shows "\<exists>b'. to_datetime_business e b = Inr b'"
  using assms
proof (induction b)
  case Nil
  show ?case by simp
next
  case (Cons y b)
  then obtain t where t: "to_datetime e (bdate y) = Inr t" by auto
  from Cons obtain b' where "to_datetime_business e b = Inr b'" by auto
  with t show ?case by simp
qed

lemma load_data_rows:
  assumes "load_tables e = Inr (ws, m, b)"
    and "\<forall>x \<in> set m. \<exists>t. to_datetime e (date x) = Inr t"
    and "\<forall>y \<in> set b. \<exists>t. to_datetime e (bdate y) = Inr t"
  shows "\<exists>d m'. load_data e = Inr d \<and> warnings d = ws \<and> marketing_df d = map safe_calculations m' \<and>
           list_all2 (\<lambda>x r. to_datetime e (date x) = Inr (date r) \<and> platform r = platform x \<and>
                           tactic_name r = tactic_name x \<and> state r = state x \<and>
                           impression r = impression x \<and> clicks r = clicks x \<and>
                           spend r = spend x \<and> attributed_revenue r = attributed_revenue x) m m'"
proof -
  from to_datetime_marketing_rows [OF assms(2)] obtain m' where
    m': "to_datetime_marketing e m = Inr m'"
    "list_all2 (\<lambda>x r. to_datetime e (date x) = Inr (date r) \<and> platform r = platform x \<and>
                           tactic_name r = tactic_name x \<and> state r = state x \<and>
                           impression r = impression x \<and> clicks r = clicks x \<and>
                           spend r = spend x \<and> attributed_revenue r = attributed_revenue x) m m'"
    by blast
  from to_datetime_business_rows [OF assms(3)] obtain b' where b': "to_datetime_business e b = Inr b'"
    by blast
  have "load_data e = Inr \<lparr>warnings = ws, marketing_df = map safe_calculations m', business_df = b'\<rparr>"
    by (simp add: load_data_def assms(1) m'(1) b')
  with m'(2) show ?thesis
    by (intro exI [of _ "\<lparr>warnings = ws, marketing_df = map safe_calculations m', business_df = b'\<rparr>"]
        exI [of _ m']) simp
qed

lemma load_tables_files:
  assumes "load_tables e = Inr (ws, m, b)"
    and "read_marketing_csv e ''Facebook.csv'' = Inr f"
    and "read_marketing_csv e ''Google.csv'' = Inr g"
    and "read_marketing_csv e ''TikTok.csv'' = Inr t"
    and "read_business_csv e ''Business.csv'' = Inr bb"
  shows "ws = [] \<and> b = bb \<and>
         m = map (\<lambda>r. r\<lparr>platform := ''Facebook''\<rparr>) f @ map (\<lambda>r. r\<lparr>platform := ''Google''\<rparr>) g @
             map (\<lambda>r. r\<lparr>platform := ''TikTok''\<rparr>) t"
  using assms by (simp add: load_tables_def load_files_def platform_files_def)

lemma zero_env_tables:
  "load_tables zero_env = Inr ([], map (\<lambda>r. r\<lparr>platform := ''Facebook''\<rparr>) zero_rows, [])"
  by (simp add: load_tables_def load_files_def platform_files_def zero_env_def files_env_def)

lemma zero_env_dates:
  "\<forall>x \<in> set (map (\<lambda>r. r\<lparr>platform := ''Facebook''\<rparr>) zero_rows). \<exists>t. to_datetime zero_env (date x) = Inr t"
  by (simp add: zero_rows_def csv_row_def zero_env_def files_env_def)

lemma zero_env_loads:
  "load_data zero_env =
     Inr \<lparr>warnings = [],
          marketing_df = [loaded_row (days_from_civil 2025 6 1) ''Facebook'' ''NY'' 0 7 (Fin 0) (Fin 5),
                          loaded_row (days_from_civil 2025 6 2) ''Facebook'' ''NY'' 1000 0 (Fin 3) (Fin 9),
                          loaded_row (days_from_civil 2025 6 2) ''Facebook'' ''NY'' 1000 10 NaN (Fin 9)],
          business_df = []\<rparr>"
  by (simp add: load_data_def zero_env_tables)
    (simp add: zero_rows_def csv_row_def loaded_row_def zero_env_def files_env_def)

lemma no_business_dates:
  "\<forall>y \<in> set ([] :: date_cell business_row list). \<exists>t. to_datetime e (bdate y) = Inr t"
  by simp

text \<open>
  C1, as the code has it. When the dates of the tables parse, \<open>load_data\<close> returns a
  marketing table with one row for every record of the table the \<open>try\<close> statement left
  (for files that were all read: for every record of the three files), with the
  record's counts and amounts. For a record with a spend of 0 the \<open>roas\<close> is the attributed
  revenue itself: it is 0 exactly when the revenue is 0, and a number exactly when the
  revenue is one. For a record with 0 impressions the \<open>ctr\<close> is 100 times the clicks, and
  0 exactly when there are no clicks. For a record with 0 clicks the \<open>cpc\<close> is the spend
  itself: 0 exactly when the spend is 0, and a number exactly when the spend is one.
\<close>

theorem load_data_zero_denominator_defined:
  assumes "load_tables e = Inr (ws, m, b)"
    and "\<forall>x \<in> set m. \<exists>t. to_datetime e (date x) = Inr t"
    and "\<forall>y \<in> set b. \<exists>t. to_datetime e (bdate y) = Inr t"
  shows "(\<exists>d. load_data e = Inr d \<and>
           list_all2 (\<lambda>x r.
               impression r = impression x \<and> clicks r = clicks x \<and>
               spend r = spend x \<and> attributed_revenue r = attributed_revenue x \<and>
               (spend x = Fin 0 \<longrightarrow>
                  roas r = attributed_revenue x \<and>
                  (roas r = Fin 0 \<longleftrightarrow> attributed_revenue x = Fin 0) \<and>
                  (is_finite (roas r) \<longleftrightarrow> is_finite (attributed_revenue x))) \<and>
               (impression x = 0 \<longrightarrow>
                  ctr r = Fin (100 * real_of_int (sint (clicks x))) \<and>
                  (ctr r = Fin 0 \<longleftrightarrow> clicks x = 0)) \<and>
               (clicks x = 0 \<longrightarrow>
                  cpc r = spend x \<and>
                  (cpc r = Fin 0 \<longleftrightarrow> spend x = Fin 0) \<and>
                  (is_finite (cpc r) \<longleftrightarrow> is_finite (spend x))))
             m (marketing_df d)) \<and>
         (\<forall>f g t bb.
            read_marketing_csv e ''Facebook.csv'' = Inr f \<and> read_marketing_csv e ''Google.csv'' = Inr g \<and>
            read_marketing_csv e ''TikTok.csv'' = Inr t \<and> read_business_csv e ''Business.csv'' = Inr bb \<longrightarrow>
            m = map (\<lambda>r. r\<lparr>platform := ''Facebook''\<rparr>) f @ map (\<lambda>r. r\<lparr>platform := ''Google''\<rparr>) g @
                map (\<lambda>r. r\<lparr>platform := ''TikTok''\<rparr>) t)"
proof (rule conjI)
  from load_data_rows [OF assms] obtain d m' where
    d: "load_data e = Inr d" "marketing_df d = map safe_calculations m'"
    and rel: "list_all2 (\<lambda>x r. to_datetime e (date x) = Inr (date r) \<and> platform r = platform x \<and>
                           tactic_name r = tactic_name x \<and> state r = state x \<and>
                           impression r = impression x \<and> clicks r = clicks x \<and>
                           spend r = spend x \<and> attributed_revenue r = attributed_revenue x) m m'"
    by blast
  have "list_all2 (\<lambda>x r.
               impression r = impression x \<and> clicks r = clicks x \<and>
               spend r = spend x \<and> attributed_revenue r = attributed_revenue x \<and>
               (spend x = Fin 0 \<longrightarrow>
                  roas r = attributed_revenue x \<and>
                  (roas r = Fin 0 \<longleftrightarrow> attributed_revenue x = Fin 0) \<and>
                  (is_finite (roas r) \<longleftrightarrow> is_finite (attributed_revenue x))) \<and>
               (impression x = 0 \<longrightarrow>
                  ctr r = Fin (100 * real_of_int (sint (clicks x))) \<and>
                  (ctr r = Fin 0 \<longleftrightarrow> clicks x = 0)) \<and>
               (clicks x = 0 \<longrightarrow>
                  cpc r = spend x \<and>
                  (cpc r = Fin 0 \<longleftrightarrow> spend x = Fin 0) \<and>
                  (is_finite (cpc r) \<longleftrightarrow> is_finite (spend x))))
             m (map safe_calculations m')"
    unfolding list_all2_map2
    by (rule list_all2_mono [OF rel])
      (auto simp add: safe_calculations_def replace_def fdiv_one to_float_def signed_eq_0_iff)
  with d show "\<exists>d. load_data e = Inr d \<and>
           list_all2 (\<lambda>x r.
               impression r = impression x \<and> clicks r = clicks x \<and>
               spend r = spend x \<and> attributed_revenue r = attributed_revenue x \<and>
               (spend x = Fin 0 \<longrightarrow>
                  roas r = attributed_revenue x \<and>
                  (roas r = Fin 0 \<longleftrightarrow> attributed_revenue x = Fin 0) \<and>
                  (is_finite (roas r) \<longleftrightarrow> is_finite (attributed_revenue x))) \<and>
               (impression x = 0 \<longrightarrow>
                  ctr r = Fin (100 * real_of_int (sint (clicks x))) \<and>
                  (ctr r = Fin 0 \<longleftrightarrow> clicks x = 0)) \<and>
               (clicks x = 0 \<longrightarrow>
                  cpc r = spend x \<and>
                  (cpc r = Fin 0 \<longleftrightarrow> spend x = Fin 0) \<and>
                  (is_finite (cpc r) \<longleftrightarrow> is_finite (spend x))))
             m (marketing_df d)"
    by (intro exI [of _ d]) simp
  show "(\<forall>f g t bb.
            read_marketing_csv e ''Facebook.csv'' = Inr f \<and> read_marketing_csv e ''Google.csv'' = Inr g \<and>
            read_marketing_csv e ''TikTok.csv'' = Inr t \<and> read_business_csv e ''Business.csv'' = Inr bb \<longrightarrow>
            m = map (\<lambda>r. r\<lparr>platform := ''Facebook''\<rparr>) f @ map (\<lambda>r. r\<lparr>platform := ''Google''\<rparr>) g @
                map (\<lambda>r. r\<lparr>platform := ''TikTok''\<rparr>) t)"
    using load_tables_files [OF assms(1)] by blast
qed

theorem load_data_zero_denominator_defined_witness:
  "load_tables zero_env = Inr ([], map (\<lambda>r. r\<lparr>platform := ''Facebook''\<rparr>) zero_rows, []) \<and>
   (\<exists>d. load_data zero_env = Inr d \<and>
           list_all2 (\<lambda>x r.
               impression r = impression x \<and> clicks r = clicks x \<and>
               spend r = spend x \<and> attributed_revenue r = attributed_revenue x \<and>
               (spend x = Fin 0 \<longrightarrow>
                  roas r = attributed_revenue x \<and>
                  (roas r = Fin 0 \<longleftrightarrow> attributed_revenue x = Fin 0) \<and>
                  (is_finite (roas r) \<longleftrightarrow> is_finite (attributed_revenue x))) \<and>
               (impression x = 0 \<longrightarrow>
                  ctr r = Fin (100 * real_of_int (sint (clicks x))) \<and>
                  (ctr r = Fin 0 \<longleftrightarrow> clicks x = 0)) \<and>
               (clicks x = 0 \<longrightarrow>
                  cpc r = spend x \<and>
                  (cpc r = Fin 0 \<longleftrightarrow> spend x = Fin 0) \<and>
                  (is_finite (cpc r) \<longleftrightarrow> is_finite (spend x))))
             (map (\<lambda>r. r\<lparr>platform := ''Facebook''\<rparr>) zero_rows) (marketing_df d)) \<and>
   spend (hd zero_rows) = Fin 0 \<and> attributed_revenue (hd zero_rows) = Fin 5"
  by (intro conjI zero_env_tables
      load_data_zero_denominator_defined [OF zero_env_tables zero_env_dates no_business_dates, THEN conjunct1])
    (simp_all add: zero_rows_def csv_row_def)

text \<open>
  C1 as stated fails: the first row of \<open>Facebook.csv\<close> in \<open>zero_env\<close> has no spend and no
  impressions, and its \<open>roas\<close> is 5 and its \<open>ctr\<close> 700; the second has no clicks, and its
  \<open>cpc\<close> is 3.
\<close>

theorem load_data_zero_denominator_counterexample:
  "load_data zero_env =
     Inr \<lparr>warnings = [],
          marketing_df = [loaded_row (days_from_civil 2025 6 1) ''Facebook'' ''NY'' 0 7 (Fin 0) (Fin 5),
                          loaded_row (days_from_civil 2025 6 2) ''Facebook'' ''NY'' 1000 0 (Fin 3) (Fin 9),
                          loaded_row (days_from_civil 2025 6 2) ''Facebook'' ''NY'' 1000 10 NaN (Fin 9)],
          business_df = []\<rparr> \<and>
   spend (loaded_row (days_from_civil 2025 6 1) ''Facebook'' ''NY'' 0 7 (Fin 0) (Fin 5)) = Fin 0 \<and>
   roas (loaded_row (days_from_civil 2025 6 1) ''Facebook'' ''NY'' 0 7 (Fin 0) (Fin 5)) = Fin 5 \<and>
   impression (loaded_row (days_from_civil 2025 6 1) ''Facebook'' ''NY'' 0 7 (Fin 0) (Fin 5)) = 0 \<and>
   ctr (loaded_row (days_from_civil 2025 6 1) ''Facebook'' ''NY'' 0 7 (Fin 0) (Fin 5)) = Fin 700 \<and>
   clicks (loaded_row (days_from_civil 2025 6 2) ''Facebook'' ''NY'' 1000 0 (Fin 3) (Fin 9)) = 0 \<and>
   cpc (loaded_row (days_from_civil 2025 6 2) ''Facebook'' ''NY'' 1000 0 (Fin 3) (Fin 9)) = Fin 3"
  by (simp add: zero_env_loads)
    (simp add: loaded_row_def safe_calculations_def replace_def to_float_def)

text \<open>
  C2. When the dates of the tables parse, \<open>load_data\<close> returns a marketing table with one
  row for every record of the table the \<open>try\<close> statement left (for files that were all
  read: for every record of the three files, tagged with its platform), in the same
  order. The row keeps the record's columns, with the date converted, and each of its
  metrics is the division by the record's denominator with zero replaced by one; so with a
  zero denominator the metric is the numerator itself (times 100 for \<open>ctr\<close>), which is
  0 only when the numerator is 0.
\<close>

theorem load_data_replace_then_divide:
  assumes "load_tables e = Inr (ws, m, b)"
    and "\<forall>x \<in> set m. \<exists>t. to_datetime e (date x) = Inr t"
    and "\<forall>y \<in> set b. \<exists>t. to_datetime e (bdate y) = Inr t"
  shows "(\<exists>d. load_data e = Inr d \<and>
           list_all2 (\<lambda>x r.
               to_datetime e (date x) = Inr (date r) \<and> platform r = platform x \<and>
               tactic_name r = tactic_name x \<and> state r = state x \<and>
               impression r = impression x \<and> clicks r = clicks x \<and>
               spend r = spend x \<and> attributed_revenue r = attributed_revenue x \<and>
               roas r = fdiv (attributed_revenue x) (if spend x \<noteq> Fin 0 then spend x else Fin 1) \<and>
               ctr r = fmul (fdiv (to_float (clicks x))
                                  (to_float (if impression x \<noteq> 0 then impression x else 1))) 100 \<and>
               cpc r = fdiv (spend x) (to_float (if clicks x \<noteq> 0 then clicks x else 1)) \<and>
               (spend x = Fin 0 \<longrightarrow> roas r = attributed_revenue x) \<and>
               (impression x = 0 \<longrightarrow> ctr r = Fin (100 * real_of_int (sint (clicks x)))) \<and>
               (clicks x = 0 \<longrightarrow> cpc r = spend x) \<and>
               (spend x = Fin 0 \<longrightarrow> (roas r = Fin 0 \<longleftrightarrow> attributed_revenue x = Fin 0)) \<and>
               (impression x = 0 \<longrightarrow> (ctr r = Fin 0 \<longleftrightarrow> clicks x = 0)) \<and>
               (clicks x = 0 \<longrightarrow> (cpc r = Fin 0 \<longleftrightarrow> spend x = Fin 0)))
             m (marketing_df d)) \<and>
         (\<forall>f g t bb.
            read_marketing_csv e ''Facebook.csv'' = Inr f \<and> read_marketing_csv e ''Google.csv'' = Inr g \<and>
            read_marketing_csv e ''TikTok.csv'' = Inr t \<and> read_business_csv e ''Business.csv'' = Inr bb \<longrightarrow>
            m = map (\<lambda>r. r\<lparr>platform := ''Facebook''\<rparr>) f @ map (\<lambda>r. r\<lparr>platform := ''Google''\<rparr>) g @
                map (\<lambda>r. r\<lparr>platform := ''TikTok''\<rparr>) t)"
proof (rule conjI)
  from load_data_rows [OF assms] obtain d m' where
    d: "load_data e = Inr d" "marketing_df d = map safe_calculations m'"
    and rel: "list_all2 (\<lambda>x r. to_datetime e (date x) = Inr (date r) \<and> platform r = platform x \<and>
                           tactic_name r = tactic_name x \<and> state r = state x \<and>
                           impression r = impression x \<and> clicks r = clicks x \<and>
                           spend r = spend x \<and> attributed_revenue r = attributed_revenue x) m m'"
    by blast
  have "list_all2 (\<lambda>x r.
               to_datetime e (date x) = Inr (date r) \<and> platform r = platform x \<and>
               tactic_name r = tactic_name x \<and> state r = state x \<and>
               impression r = impression x \<and> clicks r = clicks x \<and>
               spend r = spend x \<and> attributed_revenue r = attributed_revenue x \<and>
               roas r = fdiv (attributed_revenue x) (if spend x \<noteq> Fin 0 then spend x else Fin 1) \<and>
               ctr r = fmul (fdiv (to_float (clicks x))
                                  (to_float (if impression x \<noteq> 0 then impression x else 1))) 100 \<and>
               cpc r = fdiv (spend x) (to_float (if clicks x \<noteq> 0 then clicks x else 1)) \<and>
               (spend x = Fin 0 \<longrightarrow> roas r = attributed_revenue x) \<and>
               (impression x = 0 \<longrightarrow> ctr r = Fin (100 * real_of_int (sint (clicks x)))) \<and>
               (clicks x = 0 \<longrightarrow> cpc r = spend x) \<and>
               (spend x = Fin 0 \<longrightarrow> (roas r = Fin 0 \<longleftrightarrow> attributed_revenue x = Fin 0)) \<and>
               (impression x = 0 \<longrightarrow> (ctr r = Fin 0 \<longleftrightarrow> clicks x = 0)) \<and>
               (clicks x = 0 \<longrightarrow> (cpc r = Fin 0 \<longleftrightarrow> spend x = Fin 0)))
             m (map safe_calculations m')"
    unfolding list_all2_map2
    by (rule list_all2_mono [OF rel])
      (auto simp add: safe_calculations_def replace_def fdiv_one to_float_def signed_eq_0_iff)
  with d show "\<exists>d. load_data e = Inr d \<and>
           list_all2 (\<lambda>x r.
               to_datetime e (date x) = Inr (date r) \<and> platform r = platform x \<and>
               tactic_name r = tactic_name x \<and> state r = state x \<and>
               impression r = impression x \<and> clicks r = clicks x \<and>
               spend r = spend x \<and> attributed_revenue r = attributed_revenue x \<and>
               roas r = fdiv (attributed_revenue x) (if spend x \<noteq> Fin 0 then spend x else Fin 1) \<and>
               ctr r = fmul (fdiv (to_float (clicks x))
                                  (to_float (if impression x \<noteq> 0 then impression x else 1))) 100 \<and>
               cpc r = fdiv (spend x) (to_float (if clicks x \<noteq> 0 then clicks x else 1)) \<and>
               (spend x = Fin 0 \<longrightarrow> roas r = attributed_revenue x) \<and>
               (impression x = 0 \<longrightarrow> ctr r = Fin (100 * real_of_int (sint (clicks x)))) \<and>
               (clicks x = 0 \<longrightarrow> cpc r = spend x) \<and>
               (spend x = Fin 0 \<longrightarrow> (roas r = Fin 0 \<longleftrightarrow> attributed_revenue x = Fin 0)) \<and>
               (impression x = 0 \<longrightarrow> (ctr r = Fin 0 \<longleftrightarrow> clicks x = 0)) \<and>
               (clicks x = 0 \<longrightarrow> (cpc r = Fin 0 \<longleftrightarrow> spend x = Fin 0)))
             m (marketing_df d)"
    by (intro exI [of _ d]) simp
  show "(\<forall>f g t bb.
            read_marketing_csv e ''Facebook.csv'' = Inr f \<and> read_marketing_csv e ''Google.csv'' = Inr g \<and>
            read_marketing_csv e ''TikTok.csv'' = Inr t \<and> read_business_csv e ''Business.csv'' = Inr bb \<longrightarrow>
            m = map (\<lambda>r. r\<lparr>platform := ''Facebook''\<rparr>) f @ map (\<lambda>r. r\<lparr>platform := ''Google''\<rparr>) g @
                map (\<lambda>r. r\<lparr>platform := ''TikTok''\<rparr>) t)"
    using load_tables_files [OF assms(1)] by blast
qed

theorem load_data_replace_then_divide_witness:
  "load_tables zero_env = Inr ([], map (\<lambda>r. r\<lparr>platform := ''Facebook''\<rparr>) zero_rows, []) \<and>
   (\<exists>d. load_data zero_env = Inr d \<and>
           list_all2 (\<lambda>x r.
               to_datetime zero_env (date x) = Inr (date r) \<and> platform r = platform x \<and>
               tactic_name r = tactic_name x \<and> state r = state x \<and>
               impression r = impression x \<and> clicks r = clicks x \<and>
               spend r = spend x \<and> attributed_revenue r = attributed_revenue x \<and>
               roas r = fdiv (attributed_revenue x) (if spend x \<noteq> Fin 0 then spend x else Fin 1) \<and>
               ctr r = fmul (fdiv (to_float (clicks x))
                                  (to_float (if impression x \<noteq> 0 then impression x else 1))) 100 \<and>
               cpc r = fdiv (spend x) (to_float (if clicks x \<noteq> 0 then clicks x else 1)) \<and>
               (spend x = Fin 0 \<longrightarrow> roas r = attributed_revenue x) \<and>
               (impression x = 0 \<longrightarrow> ctr r = Fin (100 * real_of_int (sint (clicks x)))) \<and>
               (clicks x = 0 \<longrightarrow> cpc r = spend x) \<and>
               (spend x = Fin 0 \<longrightarrow> (roas r = Fin 0 \<longleftrightarrow> attributed_revenue x = Fin 0)) \<and>
               (impression x = 0 \<longrightarrow> (ctr r = Fin 0 \<longleftrightarrow> clicks x = 0)) \<and>
               (clicks x = 0 \<longrightarrow> (cpc r = Fin 0 \<longleftrightarrow> spend x = Fin 0)))
             (map (\<lambda>r. r\<lparr>platform := ''Facebook''\<rparr>) zero_rows) (marketing_df d)) \<and>
   map (\<lambda>r. (roas r, ctr r, cpc r))
     [loaded_row (days_from_civil 2025 6 1) ''Facebook'' ''NY'' 0 7 (Fin 0) (Fin 5),
      loaded_row (days_from_civil 2025 6 2) ''Facebook'' ''NY'' 1000 0 (Fin 3) (Fin 9),
      loaded_row (days_from_civil 2025 6 2) ''Facebook'' ''NY'' 1000 10 NaN (Fin 9)] =
     [(Fin 5, Fin 700, Fin 0), (Fin 3, Fin 0, Fin 3), (NaN, Fin 1, NaN)]"
  by (intro conjI zero_env_tables
      load_data_replace_then_divide [OF zero_env_tables zero_env_dates no_business_dates, THEN conjunct1])
    (simp_all add: loaded_row_def safe_calculations_def replace_def to_float_def)

section \<open>The fallback of load_data\<close>

lemma sample_platform_loop_keys:
  "map (\<lambda>r. (date r, platform r)) (fst (sample_platform_loop e d ps n)) = map (\<lambda>p. (Timestamp d, p)) ps"
proof (induction ps arbitrary: n)
  case Nil
  show ?case by simp
next
  case (Cons p ps)
  obtain rs n' where a: "sample_platform_loop e d ps (n + 6) = (rs, n')"
    by (cases "sample_platform_loop e d ps (n + 6)")
  from Cons.IH [of "n + 6"] have "map (\<lambda>r. (date r, platform r)) rs = map (\<lambda>p. (Timestamp d, p)) ps"
    unfolding a fst_conv .
  then show ?case by (simp add: a sample_marketing_row_def Let_def)
qed

lemma sample_marketing_loop_keys:
  "map (\<lambda>r. (date r, platform r)) (fst (sample_marketing_loop e ds n)) =
     map (\<lambda>(d, p). (Timestamp d, p)) (List.product ds [''Facebook'', ''Google'', ''TikTok''])"
proof (induction ds arbitrary: n)
  case Nil
  show ?case by simp
next
  case (Cons d ds)
  obtain rs n' where a: "sample_platform_loop e d [''Facebook'', ''Google'', ''TikTok''] n = (rs, n')"
    by (cases "sample_platform_loop e d [''Facebook'', ''Google'', ''TikTok''] n")
  obtain rest n'' where b: "sample_marketing_loop e ds n' = (rest, n'')"
    by (cases "sample_marketing_loop e ds n'")
  have "map (\<lambda>r. (date r, platform r)) rs = map (\<lambda>p. (Timestamp d, p)) [''Facebook'', ''Google'', ''TikTok'']"
    using sample_platform_loop_keys [of e d "[''Facebook'', ''Google'', ''TikTok'']" n]
    unfolding a fst_conv .
  moreover have "map (\<lambda>r. (date r, platform r)) rest =
      map (\<lambda>(d, p). (Timestamp d, p)) (List.product ds [''Facebook'', ''Google'', ''TikTok''])"
    using Cons.IH [of n'] unfolding b fst_conv .
  moreover have "sample_marketing_loop e (d # ds) n = (rs @ rest, n'')"
    by (simp only: sample_marketing_loop.simps a b Let_def prod.case)
  ultimately show ?case by simp
qed

lemma sample_business_loop_dates:
  "map bdate (sample_business_loop e ds n) = map Timestamp ds"
  by (induction ds arbitrary: n) (simp_all add: sample_business_row_def Let_def)

lemma to_datetime_marketing_stamps:
  "map (\<lambda>r. (date r, platform r)) m = map (\<lambda>(d, p). (Timestamp d, p)) dps \<Longrightarrow>
   \<exists>m'. to_datetime_marketing e m = Inr m' \<and> map (\<lambda>r. (date r, platform r)) m' = dps"
proof (induction m arbitrary: dps)
  case Nil
  then show ?case by simp
next
  case (Cons r m)
  then obtain d p rest where dps: "dps = (d, p) # rest" by (cases dps) auto
  with Cons.prems have r: "date r = Timestamp d" "platform r = p"
    and m: "map (\<lambda>r. (date r, platform r)) m = map (\<lambda>(d, p). (Timestamp d, p)) rest"
    by simp_all
  from Cons.IH [OF m] obtain m' where "to_datetime_marketing e m = Inr m'"
    "map (\<lambda>r. (date r, platform r)) m' = rest" by blast
  with r dps show ?case by simp
qed

lemma to_datetime_business_stamps:
  "map bdate b = map Timestamp ds \<Longrightarrow>
   \<exists>b'. to_datetime_business e b = Inr b' \<and> map bdate b' = ds"
proof (induction b arbitrary: ds)
  case Nil
  then show ?case by simp
next
  case (Cons r b)
  then obtain d rest where ds: "ds = d # rest" by (cases ds) auto
  with Cons.prems have r: "bdate r = Timestamp d" and b: "map bdate b = map Timestamp rest"
    by simp_all
  from Cons.IH [OF b] obtain b' where "to_datetime_business e b = Inr b'" "map bdate b' = rest"
    by blast
  with r ds show ?case by simp
qed

lemma length_sample_dates: "length sample_dates = 120"
  by (simp add: sample_dates_def date_range_days_def)

lemma load_data_sample:
  assumes "load_files e = Inl FileNotFoundError"
  shows "\<exists>m b. load_data e =
             Inr \<lparr>warnings = [SampleDataWarning FileNotFoundError], marketing_df = m, business_df = b\<rparr> \<and>
           map (\<lambda>r. (date r, platform r)) m = List.product sample_dates [''Facebook'', ''Google'', ''TikTok''] \<and>
           map bdate b = sample_dates"
proof -
  obtain sm n where sm: "sample_marketing_loop e sample_dates 0 = (sm, n)"
    by (cases "sample_marketing_loop e sample_dates 0")
  define sb where "sb = sample_business_loop e sample_dates n"
  have sd: "sample_data e = (sm, sb)" by (simp add: sample_data_def sm sb_def)
  have "map (\<lambda>r. (date r, platform r)) sm =
      map (\<lambda>(d, p). (Timestamp d, p)) (List.product sample_dates [''Facebook'', ''Google'', ''TikTok''])"
    using sample_marketing_loop_keys [of e sample_dates 0] unfolding sm fst_conv .
  from to_datetime_marketing_stamps [OF this] obtain m' where
    m': "to_datetime_marketing e sm = Inr m'"
    "map (\<lambda>r. (date r, platform r)) m' = List.product sample_dates [''Facebook'', ''Google'', ''TikTok'']"
    by blast
  have "map bdate sb = map Timestamp sample_dates"
    by (simp add: sb_def sample_business_loop_dates)
  from to_datetime_business_stamps [OF this] obtain b' where
    b': "to_datetime_business e sb = Inr b'" "map bdate b' = sample_dates" by blast
  have keys: "map (\<lambda>r. (date r, platform r)) (map safe_calculations m') = map (\<lambda>r. (date r, platform r)) m'"
    by (simp add: safe_calculations_def)
  have ld: "load_data e = Inr \<lparr>warnings = [SampleDataWarning FileNotFoundError],
      marketing_df = map safe_calculations m', business_df = b'\<rparr>"
    by (simp add: load_data_def load_tables_def assms sd m'(1) b'(1))
  show ?thesis
    by (rule exI [of _ "map safe_calculations m'"], rule exI [of _ b'])
      (simp only: ld keys m'(2) b'(2) simp_thms)
qed

lemma load_files_first_missing:
  assumes "read_marketing_csv e ''Facebook.csv'' = Inl FileNotFoundError \<or>
     (\<exists>a. read_marketing_csv e ''Facebook.csv'' = Inr a) \<and>
     (read_marketing_csv e ''Google.csv'' = Inl FileNotFoundError \<or>
      (\<exists>b. read_marketing_csv e ''Google.csv'' = Inr b) \<and>
      (read_marketing_csv e ''TikTok.csv'' = Inl FileNotFoundError \<or>
       (\<exists>c. read_marketing_csv e ''TikTok.csv'' = Inr c) \<and>
       read_business_csv e ''Business.csv'' = Inl FileNotFoundError))"
  shows "load_files e = Inl FileNotFoundError"
  using assms by (auto simp: load_files_def platform_files_def)

text \<open>
  C3, as the code has it: when the first read that fails, in the order \<open>Facebook.csv\<close>,
  \<open>Google.csv\<close>, \<open>TikTok.csv\<close>, \<open>Business.csv\<close>, fails because the file is missing,
  \<open>load_data\<close> returns: it shows one warning and hands back sample data, whatever the
  files read before held. The marketing table has one row for each of the 120 days from
  2025-05-16 and each of the three platforms (360 rows, by day, then by platform), the
  business table one row for each of the 120 days.
\<close>

theorem load_data_missing_file_falls_back:
  assumes "read_marketing_csv e ''Facebook.csv'' = Inl FileNotFoundError \<or>
     (\<exists>a. read_marketing_csv e ''Facebook.csv'' = Inr a) \<and>
     (read_marketing_csv e ''Google.csv'' = Inl FileNotFoundError \<or>
      (\<exists>b. read_marketing_csv e ''Google.csv'' = Inr b) \<and>
      (read_marketing_csv e ''TikTok.csv'' = Inl FileNotFoundError \<or>
       (\<exists>c. read_marketing_csv e ''TikTok.csv'' = Inr c) \<and>
       read_business_csv e ''Business.csv'' = Inl FileNotFoundError))"
  shows "\<exists>m b. load_data e =
             Inr \<lparr>warnings = [SampleDataWarning FileNotFoundError], marketing_df = m, business_df = b\<rparr> \<and>
           map (\<lambda>r. (date r, platform r)) m = List.product sample_dates [''Facebook'', ''Google'', ''TikTok''] \<and>
           map bdate b = sample_dates \<and>
           sample_dates = date_range_days (days_from_civil 2025 5 16) 120 \<and>
           length m = 360 \<and> length b = 120"
proof -
  from load_data_sample [OF load_files_first_missing [OF assms]] obtain m b where
    ld: "load_data e =
       Inr \<lparr>warnings = [SampleDataWarning FileNotFoundError], marketing_df = m, business_df = b\<rparr>"
    and m: "map (\<lambda>r. (date r, platform r)) m = List.product sample_dates [''Facebook'', ''Google'', ''TikTok'']"
    and b: "map bdate b = sample_dates"
    by blast
  have "length (map (\<lambda>r. (date r, platform r)) m) = 360"
    unfolding m by (simp add: length_sample_dates)
  then have lm: "length m = 360" by simp
  have "length (map bdate b) = 120"
    unfolding b by (rule length_sample_dates)
  then have lb: "length b = 120" by simp
  show ?thesis
    by (rule exI [of _ m], rule exI [of _ b]) (simp only: ld m b lm lb sample_dates_def simp_thms)
qed

theorem load_data_missing_file_falls_back_witness:
  "read_marketing_csv missing_env ''Google.csv'' = Inl FileNotFoundError \<and>
   (\<exists>m b. load_data missing_env =
             Inr \<lparr>warnings = [SampleDataWarning FileNotFoundError], marketing_df = m, business_df = b\<rparr> \<and>
           map (\<lambda>r. (date r, platform r)) m = List.product sample_dates [''Facebook'', ''Google'', ''TikTok''] \<and>
           map bdate b = sample_dates \<and>
           sample_dates = date_range_days (days_from_civil 2025 5 16) 120 \<and>
           length m = 360 \<and> length b = 120)"
proof (rule conjI)
  show "read_marketing_csv missing_env ''Google.csv'' = Inl FileNotFoundError"
    by (simp add: missing_env_def files_env_def)
  show "\<exists>m b. load_data missing_env =
             Inr \<lparr>warnings = [SampleDataWarning FileNotFoundError], marketing_df = m, business_df = b\<rparr> \<and>
           map (\<lambda>r. (date r, platform r)) m = List.product sample_dates [''Facebook'', ''Google'', ''TikTok''] \<and>
           map bdate b = sample_dates \<and>
           sample_dates = date_range_days (days_from_civil 2025 5 16) 120 \<and>
           length m = 360 \<and> length b = 120"
    by (rule load_data_missing_file_falls_back) (simp add: missing_env_def files_env_def)
qed

lemma load_data_other_error:
  assumes "load_files e = Inl err" and "err \<noteq> FileNotFoundError"
  shows "load_data e = Inl err"
  using assms by (cases err) (simp_all add: load_data_def load_tables_def)

text \<open>
  C3 as stated fails: in \<open>unparsable_env\<close> the file \<open>Google.csv\<close> is there and cannot be
  parsed; the exception of \<open>pd.read_csv\<close> is not a \<open>FileNotFoundError\<close>, and it leaves
  \<open>load_data\<close>.
\<close>

theorem load_data_unparsable_counterexample:
  "read_marketing_csv unparsable_env ''Google.csv'' = Inl ParserError \<and>
   load_data unparsable_env = Inl ParserError"
  by (simp add: load_data_def load_tables_def load_files_def platform_files_def unparsable_env_def
      files_env_def)

section \<open>The filter\<close>

text \<open>
  C4: with a pair of dates the filter keeps exactly the marketing rows dated within the
  two bounds, both included, whose platform and state are among the selections, and
  exactly the business rows dated within the same bounds, in the order of the tables; so
  with the range from 2025-06-01 to 2025-06-01 a row of that day passes (when its platform
  and state are selected) and no row of 2025-06-02 does.
\<close>

theorem filter_data_inclusive_range:
  "filter_data [start_date, end_date] platforms states marketing business =
     (filter (\<lambda>r. start_date \<le> date r \<and> date r \<le> end_date \<and>
                    platform r \<in> set platforms \<and> state r \<in> set states) marketing,
      filter (\<lambda>r. start_date \<le> bdate r \<and> bdate r \<le> end_date) business) \<and>
   (\<forall>r. r \<in> set (fst (filter_data [start_date, end_date] platforms states marketing business)) \<longleftrightarrow>
        r \<in> set marketing \<and> start_date \<le> date r \<and> date r \<le> end_date \<and>
        platform r \<in> set platforms \<and> state r \<in> set states) \<and>
   (\<forall>r. r \<in> set (snd (filter_data [start_date, end_date] platforms states marketing business)) \<longleftrightarrow>
        r \<in> set business \<and> start_date \<le> bdate r \<and> bdate r \<le> end_date) \<and>
   (\<forall>r. date r = days_from_civil 2025 6 1 \<and> r \<in> set marketing \<and>
        platform r \<in> set platforms \<and> state r \<in> set states \<longrightarrow>
        r \<in> set (fst (filter_data [days_from_civil 2025 6 1, days_from_civil 2025 6 1]
                         platforms states marketing business))) \<and>
   (\<forall>r. date r = days_from_civil 2025 6 2 \<longrightarrow>
        r \<notin> set (fst (filter_data [days_from_civil 2025 6 1, days_from_civil 2025 6 1]
                         platforms states marketing business)))"
  by (auto simp: filter_data_def days_from_civil_def)

theorem filter_data_inclusive_range_witness:
  "filter_data [days_from_civil 2025 6 1, days_from_civil 2025 6 1] [''Google''] [''NY'']
     two_day_marketing two_day_business =
   ([loaded_row (days_from_civil 2025 6 1) ''Google'' ''NY'' 1000 10 (Fin 100) (Fin 300)],
    [business_day (days_from_civil 2025 6 1) 5])"
  using filter_data_inclusive_range [of "days_from_civil 2025 6 1" "days_from_civil 2025 6 1"
      "[''Google'']" "[''NY'']" two_day_marketing two_day_business]
  by (simp add: two_day_marketing_def two_day_business_def loaded_row_def safe_calculations_def
      business_day_def days_from_civil_def)

text \<open>
  C5: when the date range is not a pair of dates (a single date, or none), both tables
  pass through the filter as they are.
\<close>

theorem filter_data_malformed_range:
  "length date_range \<noteq> 2 \<Longrightarrow>
     filter_data date_range platforms states marketing business = (marketing, business)"
  by (simp add: filter_data_def)

theorem filter_data_malformed_range_witness:
  "length [days_from_civil 2025 6 2] \<noteq> 2 \<and>
   filter_data [days_from_civil 2025 6 2] [] [] two_day_marketing two_day_business =
     (two_day_marketing, two_day_business)"
  using filter_data_malformed_range [of "[days_from_civil 2025 6 2]" "[]" "[]"
      two_day_marketing two_day_business]
  by simp

section \<open>The KPIs\<close>

text \<open>
  C6: for an empty marketing table \<open>calculate_kpis\<close> returns the four zeros, whatever the
  business table.
\<close>

theorem calculate_kpis_empty:
  "calculate_kpis [] business =
     \<lparr>total_spend = Fin 0, total_attributed_revenue = Fin 0, overall_roas = Fin 0, blended_cac = Fin 0\<rparr>"
  by (simp add: calculate_kpis_def)

theorem calculate_kpis_empty_witness:
  "calculate_kpis [] kpi_business =
     \<lparr>total_spend = Fin 0, total_attributed_revenue = Fin 0, overall_roas = Fin 0, blended_cac = Fin 0\<rparr>"
  by (rule calculate_kpis_empty)

text \<open>
  C7: for a marketing table with rows, \<open>calculate_kpis\<close> returns the sum of spend, the sum
  of attributed revenue, their quotient when the spend is positive and 0 otherwise, and
  the spend by the sum of new customers when that sum is positive and 0 otherwise (the sum
  over an empty business table being 0). The sums are those of the columns: of a
  \<open>float64\<close> column without its \<open>NaN\<close> cells, of the \<open>int64\<close> column in 64 bits. With no new
  customer and a spend of 500 the blended CAC is 0. Where every amount is a finite number
  and the exact sum of new customers fits in 64 bits, these are the exact sums and
  quotients.
\<close>

theorem calculate_kpis_nonempty:
  assumes "marketing \<noteq> []"
  shows "calculate_kpis marketing business =
     \<lparr>total_spend = fsum (map spend marketing),
      total_attributed_revenue = fsum (map attributed_revenue marketing),
      overall_roas =
        (if fpositive (fsum (map spend marketing))
         then fdiv (fsum (map attributed_revenue marketing)) (fsum (map spend marketing))
         else Fin 0),
      blended_cac =
        (if 0 < sint (sum_list (map new_customers business))
         then fdiv (fsum (map spend marketing)) (to_float (sum_list (map new_customers business)))
         else Fin 0)\<rparr> \<and>
     (sum_list (map new_customers business) = 0 \<and> fsum (map spend marketing) = Fin 500 \<longrightarrow>
        blended_cac (calculate_kpis marketing business) = Fin 0) \<and>
     (list_all is_finite (map spend marketing) \<and> list_all is_finite (map attributed_revenue marketing) \<and>
      - (2 ^ 63) \<le> sum_list (map (sint \<circ> new_customers) business) \<and>
      sum_list (map (sint \<circ> new_customers) business) < 2 ^ 63 \<longrightarrow>
        calculate_kpis marketing business =
          \<lparr>total_spend = Fin (sum_list (map (real_of_fval \<circ> spend) marketing)),
           total_attributed_revenue = Fin (sum_list (map (real_of_fval \<circ> attributed_revenue) marketing)),
           overall_roas =
             (if 0 < sum_list (map (real_of_fval \<circ> spend) marketing)
              then Fin (sum_list (map (real_of_fval \<circ> attributed_revenue) marketing) /
                        sum_list (map (real_of_fval \<circ> spend) marketing))
              else Fin 0),
           blended_cac =
             (if 0 < sum_list (map (sint \<circ> new_customers) business)
              then Fin (sum_list (map (real_of_fval \<circ> spend) marketing) /
                        real_of_int (sum_list (map (sint \<circ> new_customers) business)))
              else Fin 0)\<rparr>)"
proof (intro conjI impI)
  show general: "calculate_kpis marketing business =
     \<lparr>total_spend = fsum (map spend marketing),
      total_attributed_revenue = fsum (map attributed_revenue marketing),
      overall_roas =
        (if fpositive (fsum (map spend marketing))
         then fdiv (fsum (map attributed_revenue marketing)) (fsum (map spend marketing))
         else Fin 0),
      blended_cac =
        (if 0 < sint (sum_list (map new_customers business))
         then fdiv (fsum (map spend marketing)) (to_float (sum_list (map new_customers business)))
         else Fin 0)\<rparr>"
    using assms by (cases "business = []") (simp_all add: calculate_kpis_def Let_def)
  show "blended_cac (calculate_kpis marketing business) = Fin 0"
    if "sum_list (map new_customers business) = 0 \<and> fsum (map spend marketing) = Fin 500"
    using that by (simp add: general)
  show "calculate_kpis marketing business =
          \<lparr>total_spend = Fin (sum_list (map (real_of_fval \<circ> spend) marketing)),
           total_attributed_revenue = Fin (sum_list (map (real_of_fval \<circ> attributed_revenue) marketing)),
           overall_roas =
             (if 0 < sum_list (map (real_of_fval \<circ> spend) marketing)
              then Fin (sum_list (map (real_of_fval \<circ> attributed_revenue) marketing) /
                        sum_list (map (real_of_fval \<circ> spend) marketing))
              else Fin 0),
           blended_cac =
             (if 0 < sum_list (map (sint \<circ> new_customers) business)
              then Fin (sum_list (map (real_of_fval \<circ> spend) marketing) /
                        real_of_int (sum_list (map (sint \<circ> new_customers) business)))
              else Fin 0)\<rparr>"
    if h: "list_all is_finite (map spend marketing) \<and> list_all is_finite (map attributed_revenue marketing) \<and>
      - (2 ^ 63) \<le> sum_list (map (sint \<circ> new_customers) business) \<and>
      sum_list (map (sint \<circ> new_customers) business) < 2 ^ 63"
  proof -
    from h have s: "fsum (map spend marketing) = Fin (sum_list (map (real_of_fval \<circ> spend) marketing))"
      and r: "fsum (map attributed_revenue marketing) =
                Fin (sum_list (map (real_of_fval \<circ> attributed_revenue) marketing))"
      by (simp_all add: fsum_finite)
    from h have n: "sint (sum_list (map new_customers business)) =
        sum_list (map (sint \<circ> new_customers) business)"
      using sint_sum_list [of "map new_customers business"] by simp
    show ?thesis
      unfolding general s r to_float_def n by simp
  qed
qed

theorem calculate_kpis_nonempty_witness:
  "kpi_marketing \<noteq> [] \<and>
   sum_list (map new_customers kpi_business) = 0 \<and>
   calculate_kpis kpi_marketing kpi_business =
     \<lparr>total_spend = Fin 500, total_attributed_revenue = Fin 1000, overall_roas = Fin 2,
      blended_cac = Fin 0\<rparr> \<and>
   sint (sum_list (map new_customers huge_business)) = - (2 ^ 63) \<and>
   blended_cac (calculate_kpis kpi_marketing huge_business) = Fin 0"
  using calculate_kpis_nonempty [of kpi_marketing kpi_business]
    calculate_kpis_nonempty [of kpi_marketing huge_business]
  by (simp add: kpi_marketing_def kpi_business_def huge_business_def loaded_row_def
      safe_calculations_def business_day_def fsum_def)

section \<open>The grouped tables\<close>

lemma create_channel_chart_rows:
  assumes "marketing \<noteq> []"
  shows "create_channel_chart marketing =
     map (\<lambda>k. \<lparr>stats_platform = k,
               sum_spend = fsum (map spend (filter (\<lambda>r. platform r = k) marketing)),
               sum_attributed_revenue = fsum (map attributed_revenue (filter (\<lambda>r. platform r = k) marketing)),
               sum_clicks = sum_list (map clicks (filter (\<lambda>r. platform r = k) marketing)),
               sum_impression = sum_list (map impression (filter (\<lambda>r. platform r = k) marketing)),
               stats_roas = fdiv (fsum (map attributed_revenue (filter (\<lambda>r. platform r = k) marketing)))
                                 (fsum (map spend (filter (\<lambda>r. platform r = k) marketing))),
               stats_ctr = fmul (fdiv (to_float (sum_list (map clicks (filter (\<lambda>r. platform r = k) marketing))))
                                      (to_float (sum_list (map impression (filter (\<lambda>r. platform r = k) marketing))))) 100\<rparr>)
         (sort (remdups (map platform marketing)))"
  using assms
  by (simp add: create_channel_chart_def agg_sum_def groupby_platform_def add_ratios_def comp_def)

lemma create_channel_chart_keys:
  "marketing \<noteq> [] \<Longrightarrow>
     map stats_platform (create_channel_chart marketing) = sort (remdups (map platform marketing))"
  by (simp add: create_channel_chart_rows comp_def)

lemma spend_distribution_keys:
  "marketing \<noteq> [] \<Longrightarrow>
     \<exists>t. create_spend_distribution_chart marketing = Some t \<and>
         map fst t = sort (remdups (map platform marketing))"
  by (simp add: create_spend_distribution_chart_def groupby_platform_def comp_def)

lemma set_discovery_order: "set (discovery_order xs) = set xs"
  by (induction xs) auto

lemma distinct_discovery_order: "distinct (discovery_order xs)"
  by (induction xs) (auto simp: set_discovery_order)

lemma sort_remdups_discovery_order:
  fixes xs :: "'a::linorder list"
  shows "sort (remdups xs) = discovery_order xs \<longleftrightarrow> sorted (discovery_order xs)"
proof
  assume "sort (remdups xs) = discovery_order xs"
  then show "sorted (discovery_order xs)" by (metis sorted_sort)
next
  assume "sorted (discovery_order xs)"
  then show "sort (remdups xs) = discovery_order xs"
    by (intro sorted_distinct_set_unique) (simp_all add: set_discovery_order distinct_discovery_order)
qed

text \<open>
  C8: the table of \<open>create_channel_chart\<close> has a row for every platform of the input, and
  each row holds the sums of spend, attributed revenue, clicks and impressions over the
  rows of its platform, with \<open>roas\<close> and \<open>ctr\<close> computed from these sums. The sums are those
  of the columns: of a \<open>float64\<close> column without its \<open>NaN\<close> cells, of an \<open>int64\<close> column in
  64 bits; where the amounts are finite numbers and the exact sum of a count fits in 64
  bits, they are the exact sums. For the two rows of channel \<open>A\<close> of the scenario the row is
  spend 100, attributed revenue 300, \<open>roas\<close> 3 and \<open>ctr\<close> 1.
\<close>

theorem create_channel_chart_sums:
  assumes "marketing \<noteq> []"
  shows "(\<forall>s \<in> set (create_channel_chart marketing).
            sum_spend s = fsum (map spend (filter (\<lambda>r. platform r = stats_platform s) marketing)) \<and>
            sum_attributed_revenue s =
              fsum (map attributed_revenue (filter (\<lambda>r. platform r = stats_platform s) marketing)) \<and>
            sum_clicks s = sum_list (map clicks (filter (\<lambda>r. platform r = stats_platform s) marketing)) \<and>
            sum_impression s = sum_list (map impression (filter (\<lambda>r. platform r = stats_platform s) marketing)) \<and>
            stats_roas s = fdiv (sum_attributed_revenue s) (sum_spend s) \<and>
            stats_ctr s = fmul (fdiv (to_float (sum_clicks s)) (to_float (sum_impression s))) 100 \<and>
            (list_all is_finite (map spend (filter (\<lambda>r. platform r = stats_platform s) marketing)) \<longrightarrow>
               sum_spend s =
                 Fin (sum_list (map (real_of_fval \<circ> spend) (filter (\<lambda>r. platform r = stats_platform s) marketing)))) \<and>
            (list_all is_finite (map attributed_revenue (filter (\<lambda>r. platform r = stats_platform s) marketing)) \<longrightarrow>
               sum_attributed_revenue s =
                 Fin (sum_list (map (real_of_fval \<circ> attributed_revenue)
                        (filter (\<lambda>r. platform r = stats_platform s) marketing)))) \<and>
            (- (2 ^ 63) \<le> sum_list (map (sint \<circ> clicks) (filter (\<lambda>r. platform r = stats_platform s) marketing)) \<and>
             sum_list (map (sint \<circ> clicks) (filter (\<lambda>r. platform r = stats_platform s) marketing)) < 2 ^ 63 \<longrightarrow>
               sint (sum_clicks s) =
                 sum_list (map (sint \<circ> clicks) (filter (\<lambda>r. platform r = stats_platform s) marketing))) \<and>
            (- (2 ^ 63) \<le> sum_list (map (sint \<circ> impression) (filter (\<lambda>r. platform r = stats_platform s) marketing)) \<and>
             sum_list (map (sint \<circ> impression) (filter (\<lambda>r. platform r = stats_platform s) marketing)) < 2 ^ 63 \<longrightarrow>
               sint (sum_impression s) =
                 sum_list (map (sint \<circ> impression) (filter (\<lambda>r. platform r = stats_platform s) marketing)))) \<and>
         set (map stats_platform (create_channel_chart marketing)) = set (map platform marketing) \<and>
         (platform r1 = ''A'' \<and> spend r1 = Fin 100 \<and> attributed_revenue r1 = Fin 300 \<and> clicks r1 = 10 \<and>
          impression r1 = 1000 \<and>
          platform r2 = ''A'' \<and> spend r2 = Fin 0 \<and> attributed_revenue r2 = Fin 0 \<and> clicks r2 = 0 \<and>
          impression r2 = 0 \<longrightarrow>
          create_channel_chart [r1, r2] =
            [\<lparr>stats_platform = ''A'', sum_spend = Fin 100, sum_attributed_revenue = Fin 300, sum_clicks = 10,
              sum_impression = 1000, stats_roas = Fin 3, stats_ctr = Fin 1\<rparr>])"
proof (intro conjI)
  have fin: "list_all is_finite (map f rows) \<Longrightarrow> fsum (map f rows) = Fin (sum_list (map (real_of_fval \<circ> f) rows))"
    for f :: "metric_row \<Rightarrow> fval" and rows
    using fsum_finite [of "map f rows"] by simp
  have wrap: "- (2 ^ 63) \<le> sum_list (map (sint \<circ> f) rows) \<and> sum_list (map (sint \<circ> f) rows) < 2 ^ 63 \<Longrightarrow>
      sint (sum_list (map f rows)) = sum_list (map (sint \<circ> f) rows)"
    for f :: "metric_row \<Rightarrow> int64" and rows
    using sint_sum_list [of "map f rows"] by simp
  show "\<forall>s \<in> set (create_channel_chart marketing).
            sum_spend s = fsum (map spend (filter (\<lambda>r. platform r = stats_platform s) marketing)) \<and>
            sum_attributed_revenue s =
              fsum (map attributed_revenue (filter (\<lambda>r. platform r = stats_platform s) marketing)) \<and>
            sum_clicks s = sum_list (map clicks (filter (\<lambda>r. platform r = stats_platform s) marketing)) \<and>
            sum_impression s = sum_list (map impression (filter (\<lambda>r. platform r = stats_platform s) marketing)) \<and>
            stats_roas s = fdiv (sum_attributed_revenue s) (sum_spend s) \<and>
            stats_ctr s = fmul (fdiv (to_float (sum_clicks s)) (to_float (sum_impression s))) 100 \<and>
            (list_all is_finite (map spend (filter (\<lambda>r. platform r = stats_platform s) marketing)) \<longrightarrow>
               sum_spend s =
                 Fin (sum_list (map (real_of_fval \<circ> spend) (filter (\<lambda>r. platform r = stats_platform s) marketing)))) \<and>
            (list_all is_finite (map attributed_revenue (filter (\<lambda>r. platform r = stats_platform s) marketing)) \<longrightarrow>
               sum_attributed_revenue s =
                 Fin (sum_list (map (real_of_fval \<circ> attributed_revenue)
                        (filter (\<lambda>r. platform r = stats_platform s) marketing)))) \<and>
            (- (2 ^ 63) \<le> sum_list (map (sint \<circ> clicks) (filter (\<lambda>r. platform r = stats_platform s) marketing)) \<and>
             sum_list (map (sint \<circ> clicks) (filter (\<lambda>r. platform r = stats_platform s) marketing)) < 2 ^ 63 \<longrightarrow>
               sint (sum_clicks s) =
                 sum_list (map (sint \<circ> clicks) (filter (\<lambda>r. platform r = stats_platform s) marketing))) \<and>
            (- (2 ^ 63) \<le> sum_list (map (sint \<circ> impression) (filter (\<lambda>r. platform r = stats_platform s) marketing)) \<and>
             sum_list (map (sint \<circ> impression) (filter (\<lambda>r. platform r = stats_platform s) marketing)) < 2 ^ 63 \<longrightarrow>
               sint (sum_impression s) =
                 sum_list (map (sint \<circ> impression) (filter (\<lambda>r. platform r = stats_platform s) marketing)))"
    unfolding create_channel_chart_rows [OF assms]
    by (simp add: fin wrap)
  show "set (map stats_platform (create_channel_chart marketing)) = set (map platform marketing)"
    unfolding create_channel_chart_keys [OF assms] by simp
  show "platform r1 = ''A'' \<and> spend r1 = Fin 100 \<and> attributed_revenue r1 = Fin 300 \<and> clicks r1 = 10 \<and>
          impression r1 = 1000 \<and>
          platform r2 = ''A'' \<and> spend r2 = Fin 0 \<and> attributed_revenue r2 = Fin 0 \<and> clicks r2 = 0 \<and>
          impression r2 = 0 \<longrightarrow>
          create_channel_chart [r1, r2] =
            [\<lparr>stats_platform = ''A'', sum_spend = Fin 100, sum_attributed_revenue = Fin 300, sum_clicks = 10,
              sum_impression = 1000, stats_roas = Fin 3, stats_ctr = Fin 1\<rparr>]"
    by (simp add: create_channel_chart_rows fsum_def to_float_def)
qed

theorem create_channel_chart_sums_witness:
  "scenario_table \<noteq> [] \<and>
   create_channel_chart scenario_table =
     [\<lparr>stats_platform = ''A'', sum_spend = Fin 100, sum_attributed_revenue = Fin 300, sum_clicks = 10,
       sum_impression = 1000, stats_roas = Fin 3, stats_ctr = Fin 1\<rparr>] \<and>
   map sum_impression (create_channel_chart huge_table) = [2 ^ 63] \<and>
   sint (2 ^ 63 :: int64) = - (2 ^ 63)"
  using create_channel_chart_sums [of scenario_table
      "loaded_row (days_from_civil 2025 6 1) ''A'' ''NY'' 1000 10 (Fin 100) (Fin 300)"
      "loaded_row (days_from_civil 2025 6 2) ''A'' ''NY'' 0 0 (Fin 0) (Fin 0)"]
    create_channel_chart_sums [of huge_table]
  by (simp add: scenario_table_def huge_table_def loaded_row_def safe_calculations_def
      create_channel_chart_rows)

text \<open>
  C9, as the code has it: the rows of the channel table and of the table of spend by
  platform come in ascending order of the platform, one row for each platform of the
  input. This is the order in which the platforms first appear exactly when they first
  appear in ascending order (as they do in a table built by \<open>load_data\<close>, which puts
  Facebook before Google before TikTok).
\<close>

theorem grouped_rows_sorted_by_key:
  assumes "marketing \<noteq> []"
  shows "sorted (map stats_platform (create_channel_chart marketing)) \<and>
         distinct (map stats_platform (create_channel_chart marketing)) \<and>
         set (map stats_platform (create_channel_chart marketing)) = set (map platform marketing) \<and>
         (\<exists>t. create_spend_distribution_chart marketing = Some t \<and>
              map fst t = map stats_platform (create_channel_chart marketing)) \<and>
         (map stats_platform (create_channel_chart marketing) = discovery_order (map platform marketing)
            \<longleftrightarrow> sorted (discovery_order (map platform marketing)))"
  using spend_distribution_keys [OF assms]
  by (simp add: create_channel_chart_keys [OF assms] sort_remdups_discovery_order)

theorem grouped_rows_sorted_by_key_witness:
  "facebook_first_table \<noteq> [] \<and>
   map stats_platform (create_channel_chart facebook_first_table) = [''Facebook'', ''Google''] \<and>
   discovery_order (map platform facebook_first_table) = [''Facebook'', ''Google'']"
  using grouped_rows_sorted_by_key [of facebook_first_table]
  by (simp add: facebook_first_table_def loaded_row_def safe_calculations_def)

text \<open>
  C9 as stated fails: in \<open>google_first_table\<close> Google appears before Facebook, and both
  grouped tables put Facebook first.
\<close>

theorem grouped_rows_discovery_order_counterexample:
  "discovery_order (map platform google_first_table) = [''Google'', ''Facebook''] \<and>
   map stats_platform (create_channel_chart google_first_table) = [''Facebook'', ''Google''] \<and>
   create_spend_distribution_chart google_first_table = Some [(''Facebook'', Fin 100), (''Google'', Fin 50)]"
  by (simp add: google_first_table_def loaded_row_def safe_calculations_def create_channel_chart_def
      create_spend_distribution_chart_def groupby_platform_def agg_sum_def add_ratios_def fsum_def)

text \<open>
  C10: the channel table divides the sums as they are. For a platform of the input whose
  rows have a total spend of 0, the \<open>roas\<close> of its row is the division of the summed
  revenue by 0, which is not a finite number; with a total of 0 impressions, the same
  holds of its \<open>ctr\<close>.
\<close>

theorem create_channel_chart_unguarded_division:
  assumes "k \<in> set (map platform marketing)"
  shows "\<exists>s \<in> set (create_channel_chart marketing). stats_platform s = k \<and>
           (fsum (map spend (filter (\<lambda>r. platform r = k) marketing)) = Fin 0 \<longrightarrow>
              stats_roas s = fdiv (sum_attributed_revenue s) (Fin 0) \<and> \<not> is_finite (stats_roas s)) \<and>
           (sum_list (map impression (filter (\<lambda>r. platform r = k) marketing)) = 0 \<longrightarrow>
              stats_ctr s = fmul (fdiv (to_float (sum_clicks s)) (Fin 0)) 100 \<and> \<not> is_finite (stats_ctr s))"
proof -
  from assms have ne: "marketing \<noteq> []" by auto
  from assms have k: "k \<in> set (sort (remdups (map platform marketing)))" by simp
  have zero: "to_float 0 = Fin 0" by (simp add: to_float_def)
  show ?thesis
    unfolding create_channel_chart_rows [OF ne] set_map bex_simps
    by (rule bexI [OF _ k]) (simp add: zero fdiv_zero_not_finite fmul_not_finite)
qed

theorem create_channel_chart_unguarded_division_witness:
  "''TikTok'' \<in> set (map platform paused_table) \<and>
   fsum (map spend (filter (\<lambda>r. platform r = ''TikTok'') paused_table)) = Fin 0 \<and>
   sum_list (map impression (filter (\<lambda>r. platform r = ''TikTok'') paused_table)) = 0 \<and>
   create_channel_chart paused_table =
     [\<lparr>stats_platform = ''Facebook'', sum_spend = Fin 100, sum_attributed_revenue = Fin 300, sum_clicks = 10,
       sum_impression = 1000, stats_roas = Fin 3, stats_ctr = Fin 1\<rparr>,
      \<lparr>stats_platform = ''TikTok'', sum_spend = Fin 0, sum_attributed_revenue = Fin 0, sum_clicks = 0,
       sum_impression = 0, stats_roas = NaN, stats_ctr = NaN\<rparr>]"
  using create_channel_chart_unguarded_division [of "''TikTok''" paused_table]
  by (simp add: paused_table_def loaded_row_def safe_calculations_def create_channel_chart_def
      groupby_platform_def agg_sum_def add_ratios_def fsum_def to_float_def)

end
